theory Spec2Isabelle
  imports Main "HOL-Library.Word" "HOL-Library.Sublist"
begin

section \<open>Wiki Explorer: the query controller of \<^verbatim>\<open>src/index.jsx\<close>\<close>

text \<open>
  The component \<^verbatim>\<open>App\<close> keeps its data in React state hooks and changes it in three
  handlers: \<^verbatim>\<open>handleSearch\<close> (the spec's \<^verbatim>\<open>submitSearch\<close>), \<^verbatim>\<open>fetchArticleExtract\<close>
  (\<^verbatim>\<open>selectArticle\<close>) and \<^verbatim>\<open>clearArticle\<close> (\<^verbatim>\<open>dismissArticle\<close>). The two asynchronous
  handlers suspend once, at \<^verbatim>\<open>await fetch(...)\<close>; each is modelled as its synchronous
  prefix, which returns the suspended continuation, and the continuation itself, which
  is resumed with whatever the remote service answered.
\<close>

subsection \<open>JavaScript strings\<close>

text \<open>
  A JavaScript string is a sequence of UTF-16 code units. \<open>lit\<close> embeds an ASCII
  literal of the source.
\<close>

type_synonym jsstring = "16 word list"

definition lit :: "string \<Rightarrow> jsstring" where
  "lit cs = map (\<lambda>c. of_char c) cs"

text \<open>
  \<^verbatim>\<open>String.prototype.trim\<close> removes leading and trailing WhiteSpace and LineTerminator
  code units (ECMAScript, TrimString).
\<close>

definition is_ws :: "16 word \<Rightarrow> bool" where
  "is_ws c \<longleftrightarrow>
     c = 0x0009 \<or> c = 0x000A \<or> c = 0x000B \<or> c = 0x000C \<or> c = 0x000D \<or> c = 0x0020 \<or>
     c = 0x00A0 \<or> c = 0x1680 \<or> (0x2000 \<le> c \<and> c \<le> 0x200A) \<or> c = 0x2028 \<or>
     c = 0x2029 \<or> c = 0x202F \<or> c = 0x205F \<or> c = 0x3000 \<or> c = 0xFEFF"

definition trim :: "jsstring \<Rightarrow> jsstring" where
  "trim s = rev (dropWhile is_ws (rev (dropWhile is_ws s)))"

text \<open>
  \<^verbatim>\<open>encodeURIComponent\<close> (ECMAScript, Encode): a code unit of the unreserved set is
  copied; any other code point is written as the percent-escaped octets of its UTF-8
  form; a surrogate code unit without its partner raises \<^verbatim>\<open>URIError\<close>.
\<close>

datatype exn =
    Error jsstring
  | Rejection jsstring
  | TypeError
  | URIError

definition uri_unreserved :: "16 word \<Rightarrow> bool" where
  "uri_unreserved c \<longleftrightarrow>
     (0x41 \<le> c \<and> c \<le> 0x5A) \<or> (0x61 \<le> c \<and> c \<le> 0x7A) \<or> (0x30 \<le> c \<and> c \<le> 0x39) \<or>
     c \<in> set (lit ''-_.!~*'()'')"

definition hex_digit :: "nat \<Rightarrow> 16 word" where
  "hex_digit n = lit ''0123456789ABCDEF'' ! (n mod 16)"

definition percent_octet :: "nat \<Rightarrow> jsstring" where
  "percent_octet b = [0x25, hex_digit (b div 16), hex_digit (b mod 16)]"

definition utf8 :: "nat \<Rightarrow> nat list" where
  "utf8 cp =
     (if cp < 0x80 then [cp]
      else if cp < 0x800 then [0xC0 + cp div 0x40, 0x80 + cp mod 0x40]
      else if cp < 0x10000 then
        [0xE0 + cp div 0x1000, 0x80 + (cp div 0x40) mod 0x40, 0x80 + cp mod 0x40]
      else
        [0xF0 + cp div 0x40000, 0x80 + (cp div 0x1000) mod 0x40,
         0x80 + (cp div 0x40) mod 0x40, 0x80 + cp mod 0x40])"

definition percent_encode :: "nat \<Rightarrow> jsstring" where
  "percent_encode cp = concat (map percent_octet (utf8 cp))"

definition lead_surrogate :: "16 word \<Rightarrow> bool" where
  "lead_surrogate c \<longleftrightarrow> 0xD800 \<le> c \<and> c \<le> 0xDBFF"

definition trail_surrogate :: "16 word \<Rightarrow> bool" where
  "trail_surrogate c \<longleftrightarrow> 0xDC00 \<le> c \<and> c \<le> 0xDFFF"

fun encodeURIComponent :: "jsstring \<Rightarrow> exn + jsstring" where
  "encodeURIComponent [] = Inr []"
| "encodeURIComponent (c # cs) =
     (if uri_unreserved c then
        (case encodeURIComponent cs of Inl e \<Rightarrow> Inl e | Inr r \<Rightarrow> Inr (c # r))
      else if trail_surrogate c then Inl URIError
      else if lead_surrogate c then
        (case cs of
           [] \<Rightarrow> Inl URIError
         | d # ds \<Rightarrow>
             if trail_surrogate d then
               (case encodeURIComponent ds of
                  Inl e \<Rightarrow> Inl e
                | Inr r \<Rightarrow>
                    Inr (percent_encode
                          (0x10000 + (unat c - 0xD800) * 0x400 + (unat d - 0xDC00)) @ r))
             else Inl URIError)
      else
        (case encodeURIComponent cs of
           Inl e \<Rightarrow> Inl e
         | Inr r \<Rightarrow> Inr (percent_encode (unat c) @ r)))"

text \<open>\<^verbatim>\<open>String.prototype.isWellFormed\<close>: no surrogate code unit stands without its partner.\<close>

fun well_formed :: "jsstring \<Rightarrow> bool" where
  "well_formed [] = True"
| "well_formed (c # cs) =
     (if trail_surrogate c then False
      else if lead_surrogate c then
        (case cs of [] \<Rightarrow> False | d # ds \<Rightarrow> trail_surrogate d \<and> well_formed ds)
      else well_formed cs)"

text \<open>
  The conversion to a scalar-value string that \<^verbatim>\<open>new URLSearchParams({...})\<close> applies to
  every value it is given: a surrogate code unit without its partner becomes U+FFFD.
\<close>

fun to_usv :: "jsstring \<Rightarrow> jsstring" where
  "to_usv [] = []"
| "to_usv (c # cs) =
     (if trail_surrogate c then 0xFFFD # to_usv cs
      else if lead_surrogate c then
        (case cs of
           [] \<Rightarrow> [0xFFFD]
         | d # ds \<Rightarrow> if trail_surrogate d then c # d # to_usv ds else 0xFFFD # to_usv cs)
      else c # to_usv cs)"

subsection \<open>The remote service\<close>

text \<open>
  The JSON bodies, after the response shapes the handlers read:
  \<^verbatim>\<open>{query: {search: [{pageid, title, snippet}]}}\<close>, \<^verbatim>\<open>{error: {info}}\<close> and
  \<^verbatim>\<open>{query: {pages: [{title, extract}]}}\<close>. A property the code tests before use
  (\<^verbatim>\<open>data.error\<close>, \<^verbatim>\<open>data.query?.search\<close>, \<^verbatim>\<open>data.query?.pages?.[0]\<close>,
  \<^verbatim>\<open>page.extract\<close>) is optional; a property it reads without a test is present.
  The field names \<^verbatim>\<open>title\<close> and \<^verbatim>\<open>error\<close> occur in several objects of the source and
  carry a prefix here, as does \<^verbatim>\<open>extract\<close>, a keyword of Isabelle.
\<close>

record SearchResult =
  pageid :: int
  title :: jsstring
  snippet :: jsstring

record Page =
  page_title :: jsstring
  page_extract :: "jsstring option"

record ApiError =
  info :: jsstring

record Query =
  search :: "SearchResult list option"
  pages :: "Page list option"

record Data =
  data_error :: "ApiError option"
  query :: "Query option"

text \<open>
  What \<^verbatim>\<open>await response.json()\<close> gives: a rejection (the body is not JSON), the JSON
  value \<^verbatim>\<open>null\<close> (reading a property of it raises \<^verbatim>\<open>TypeError\<close>), or an object.
  What \<^verbatim>\<open>await fetch(url)\<close> gives: a rejection (transport failure) or a response with
  its \<^verbatim>\<open>ok\<close> flag and body.
\<close>

datatype body = NotJson exn | JsonNull | Json Data

datatype fetch_outcome = Rejected exn | Response bool body

text \<open>
  A request: the base URL and the entries of the \<^verbatim>\<open>URLSearchParams\<close> object, in order.
  The values that are literals of the source are ASCII, which the conversion to a
  scalar-value string leaves as they are; the search term and the title go through it.
\<close>

datatype request = Get jsstring "(string \<times> jsstring) list"

definition WIKI_API_BASE :: jsstring where
  "WIKI_API_BASE = lit ''https://en.wikipedia.org/w/api.php''"

definition search_request :: "jsstring \<Rightarrow> request" where
  "search_request searchTerm' =
     Get WIKI_API_BASE
       [(''action'', lit ''query''), (''list'', lit ''search''), (''srsearch'', to_usv searchTerm'),
        (''format'', lit ''json''), (''origin'', lit ''*''), (''srlimit'', lit ''10'')]"

definition extract_request :: "jsstring \<Rightarrow> request" where
  "extract_request title' =
     Get WIKI_API_BASE
       [(''action'', lit ''query''), (''prop'', lit ''extracts''), (''titles'', to_usv title'),
        (''explaintext'', lit ''true''), (''exintro'', lit ''true''), (''format'', lit ''json''),
        (''origin'', lit ''*''), (''formatversion'', lit ''2''), (''exlimit'', lit ''1'')]"

fun param :: "string \<Rightarrow> request \<Rightarrow> jsstring option" where
  "param k (Get b ps) = map_of ps k"

subsection \<open>The state\<close>

text \<open>
  The state hooks the three handlers read or write, the network calls issued so far
  (\<open>fetched\<close>) and the lines written with \<^verbatim>\<open>console.error\<close> (\<open>console\<close>). The theme
  and placeholder hooks are written by none of the three handlers and are left out.
\<close>

record Article =
  article_title :: jsstring
  content :: jsstring
  url :: jsstring

record app =
  searchTerm :: jsstring
  results :: "SearchResult list"
  loading :: bool
  error :: "jsstring option"
  selectedArticle :: "Article option"
  hasSearched :: bool
  fetched :: "request list"
  console :: "(jsstring \<times> exn) list"

definition initial :: app where
  "initial = \<lparr>searchTerm = [], results = [], loading = False, error = None,
     selectedArticle = None, hasSearched = False, fetched = [], console = []\<rparr>"

text \<open>An asynchronous handler suspended at its \<^verbatim>\<open>await fetch(...)\<close>, with the variable its
  closure captured.\<close>

datatype pending = SearchPending jsstring | ExtractPending jsstring

subsection \<open>\<^verbatim>\<open>handleSearch\<close>\<close>

definition handleSearch :: "app \<Rightarrow> app \<times> pending option" where
  "handleSearch s =
     (if trim (searchTerm s) = [] then (s, None)
      else
        (s\<lparr>hasSearched := True, loading := True, results := [], selectedArticle := None,
           error := None, fetched := fetched s @ [search_request (searchTerm s)]\<rparr>,
         Some (SearchPending (searchTerm s))))"

text \<open>\<^verbatim>\<open>data.query?.search || []\<close>.\<close>

definition matches :: "Data \<Rightarrow> SearchResult list" where
  "matches data =
     (case query data of
        None \<Rightarrow> []
      | Some q \<Rightarrow> (case search q of None \<Rightarrow> [] | Some l \<Rightarrow> l))"

text \<open>The \<^verbatim>\<open>try\<close> block up to \<^verbatim>\<open>const searchResults = ...\<close>: the exception thrown or the
  list.\<close>

definition search_try :: "fetch_outcome \<Rightarrow> exn + SearchResult list" where
  "search_try out =
     (case out of
        Rejected e \<Rightarrow> Inl e
      | Response ok b \<Rightarrow>
          if \<not> ok then Inl (Error (lit ''Network response was not ok''))
          else
            (case b of
               NotJson e \<Rightarrow> Inl e
             | JsonNull \<Rightarrow> Inl TypeError
             | Json data \<Rightarrow>
                 (case data_error data of
                    Some e \<Rightarrow> Inl (Error (info e))
                  | None \<Rightarrow> Inr (matches data))))"

definition no_results_message :: "jsstring \<Rightarrow> jsstring" where
  "no_results_message searchTerm' = lit ''No results found for \"'' @ searchTerm' @ lit ''\"''"

definition search_failed_message :: jsstring where
  "search_failed_message = lit ''Failed to fetch search results from Wikipedia.''"

definition handleSearch_resume :: "jsstring \<Rightarrow> fetch_outcome \<Rightarrow> app \<Rightarrow> app" where
  "handleSearch_resume searchTerm' out s =
     (case search_try out of
        Inr searchResults \<Rightarrow>
          (let s1 = s\<lparr>results := searchResults\<rparr>;
               s2 = (if length searchResults = 0
                     then s1\<lparr>error := Some (no_results_message searchTerm')\<rparr> else s1)
           in s2\<lparr>loading := False\<rparr>)
      | Inl err \<Rightarrow>
          s\<lparr>console := console s @ [(lit ''Search error:'', err)],
            error := Some search_failed_message, loading := False\<rparr>)"

subsection \<open>\<^verbatim>\<open>fetchArticleExtract\<close> and \<^verbatim>\<open>clearArticle\<close>\<close>

definition fetchArticleExtract :: "jsstring \<Rightarrow> app \<Rightarrow> app \<times> pending option" where
  "fetchArticleExtract title' s =
     (s\<lparr>selectedArticle := None, loading := True, error := None,
        fetched := fetched s @ [extract_request title']\<rparr>,
      Some (ExtractPending title'))"

text \<open>\<^verbatim>\<open>data.query?.pages?.[0]\<close>: the first page, if there is one.\<close>

definition first_page :: "Data \<Rightarrow> Page option" where
  "first_page data =
     (case query data of
        None \<Rightarrow> None
      | Some q \<Rightarrow> (case pages q of None \<Rightarrow> None | Some [] \<Rightarrow> None | Some (p # ps) \<Rightarrow> Some p))"

text \<open>The extract the test \<^verbatim>\<open>page && page.extract\<close> looks at.\<close>

definition returned_extract :: "Data \<Rightarrow> jsstring option" where
  "returned_extract data = (case first_page data of None \<Rightarrow> None | Some p \<Rightarrow> page_extract p)"

definition wiki_prefix :: jsstring where
  "wiki_prefix = lit ''https://en.wikipedia.org/wiki/''"

definition no_extract_message :: "jsstring \<Rightarrow> jsstring" where
  "no_extract_message title' =
     lit ''Could not retrieve full article content for '' @ title' @ lit ''.''"

definition article_failed_message :: jsstring where
  "article_failed_message = lit ''Failed to load article content.''"

text \<open>The \<^verbatim>\<open>try\<close> block: the exception thrown, or the state after the branch taken.\<close>

definition extract_try :: "jsstring \<Rightarrow> fetch_outcome \<Rightarrow> app \<Rightarrow> exn + app" where
  "extract_try title' out s =
     (case out of
        Rejected e \<Rightarrow> Inl e
      | Response ok b \<Rightarrow>
          if \<not> ok then Inl (Error (lit ''Network response was not ok''))
          else
            (case b of
               NotJson e \<Rightarrow> Inl e
             | JsonNull \<Rightarrow> Inl TypeError
             | Json data \<Rightarrow>
                 (case first_page data of
                    None \<Rightarrow> Inr (s\<lparr>error := Some (no_extract_message title')\<rparr>)
                  | Some page \<Rightarrow>
                      (case page_extract page of
                         None \<Rightarrow> Inr (s\<lparr>error := Some (no_extract_message title')\<rparr>)
                       | Some ex \<Rightarrow>
                           if ex = [] then Inr (s\<lparr>error := Some (no_extract_message title')\<rparr>)
                           else
                             (case encodeURIComponent (page_title page) of
                                Inl e \<Rightarrow> Inl e
                              | Inr enc \<Rightarrow>
                                  Inr (s\<lparr>selectedArticle :=
                                          Some \<lparr>article_title = page_title page, content = ex,
                                                url = wiki_prefix @ enc\<rparr>\<rparr>))))))"

definition fetchArticleExtract_resume :: "jsstring \<Rightarrow> fetch_outcome \<Rightarrow> app \<Rightarrow> app" where
  "fetchArticleExtract_resume title' out s =
     (case extract_try title' out s of
        Inr s1 \<Rightarrow> s1\<lparr>loading := False\<rparr>
      | Inl err \<Rightarrow>
          s\<lparr>console := console s @ [(lit ''Article fetch error:'', err)],
            error := Some article_failed_message, loading := False\<rparr>)"

definition clearArticle :: "app \<Rightarrow> app" where
  "clearArticle s = s\<lparr>selectedArticle := None\<rparr>"

subsection \<open>Complete operations\<close>

text \<open>
  A handler run from its call to the end of its \<^verbatim>\<open>finally\<close> block with nothing in
  between: the spec's \<^verbatim>\<open>submitSearch\<close>, \<^verbatim>\<open>selectArticle\<close> and \<^verbatim>\<open>dismissArticle\<close>.
  \<open>out\<close> is the outcome of the fetch the handler issued.
\<close>

fun resume :: "pending \<Rightarrow> fetch_outcome \<Rightarrow> app \<Rightarrow> app" where
  "resume (SearchPending t) out s = handleSearch_resume t out s"
| "resume (ExtractPending t) out s = fetchArticleExtract_resume t out s"

fun complete :: "fetch_outcome \<Rightarrow> app \<times> pending option \<Rightarrow> app" where
  "complete out (s, None) = s"
| "complete out (s, Some k) = resume k out s"

definition submitSearch :: "fetch_outcome \<Rightarrow> app \<Rightarrow> app" where
  "submitSearch out s = complete out (handleSearch s)"

definition selectArticle :: "jsstring \<Rightarrow> fetch_outcome \<Rightarrow> app \<Rightarrow> app" where
  "selectArticle title' out s = complete out (fetchArticleExtract title' s)"

definition dismissArticle :: "app \<Rightarrow> app" where
  "dismissArticle s = clearArticle s"

subsection \<open>The event loop\<close>

text \<open>
  What can happen to the mounted component: the user types into the input
  (\<^verbatim>\<open>onChange\<close>; the input is disabled while \<^verbatim>\<open>loading\<close>), submits the form (the submit
  button is disabled while \<^verbatim>\<open>loading\<close>), clicks the \<open>i\<close>-th result button (rendered by
  \<^verbatim>\<open>results.map\<close>, and only while no article is selected; its \<^verbatim>\<open>onClick\<close> is the one
  call site of \<^verbatim>\<open>fetchArticleExtract\<close>), closes the article view (rendered only while
  an article is selected), or one of the fetches in flight settles. Nothing cancels or
  orders the fetches in flight, so they settle in any order.
\<close>

datatype event =
    Input jsstring
  | Submit
  | Click nat
  | Close
  | Settle nat fetch_outcome

definition spawn :: "app \<times> pending option \<Rightarrow> pending list \<Rightarrow> app \<times> pending list" where
  "spawn r ps = (fst r, ps @ (case snd r of None \<Rightarrow> [] | Some k \<Rightarrow> [k]))"

fun step :: "app \<times> pending list \<Rightarrow> event \<Rightarrow> app \<times> pending list" where
  "step (s, ps) (Input t) = (if loading s then (s, ps) else (s\<lparr>searchTerm := t\<rparr>, ps))"
| "step (s, ps) Submit = (if loading s then (s, ps) else spawn (handleSearch s) ps)"
| "step (s, ps) (Click i) =
     (if selectedArticle s = None \<and> i < length (results s)
      then spawn (fetchArticleExtract (title (results s ! i)) s) ps
      else (s, ps))"
| "step (s, ps) Close = (if selectedArticle s = None then (s, ps) else (clearArticle s, ps))"
| "step (s, ps) (Settle k out) =
     (if k < length ps then (resume (ps ! k) out s, take k ps @ drop (Suc k) ps)
      else (s, ps))"

definition run :: "event list \<Rightarrow> app \<times> pending list" where
  "run evs = foldl step (initial, []) evs"

text \<open>The search results an event brings in from the remote service.\<close>

fun delivered :: "event \<Rightarrow> SearchResult list" where
  "delivered (Settle k (Response ok (Json data))) = matches data"
| "delivered e = []"

text \<open>Mutual exclusion: an error message and a selected article are not both set.\<close>

definition exclusive :: "app \<Rightarrow> bool" where
  "exclusive s \<longleftrightarrow> error s = None \<or> selectedArticle s = None"

text \<open>
  A run in which at most one fetch is in flight at every moment: each asynchronous
  handler has finished before the next is called.
\<close>

fun serial_from :: "app \<times> pending list \<Rightarrow> event list \<Rightarrow> bool" where
  "serial_from m [] = (length (snd m) \<le> 1)"
| "serial_from m (e # es) = (length (snd m) \<le> 1 \<and> serial_from (step m e) es)"

text \<open>What a run with at most one fetch in flight keeps: with no fetch in flight the error
  and the article are not both set, and while one is in flight neither is set.\<close>

definition settled :: "app \<times> pending list \<Rightarrow> bool" where
  "settled m \<longleftrightarrow>
     (if snd m = [] then exclusive (fst m)
      else error (fst m) = None \<and> selectedArticle (fst m) = None)"

text \<open>The invariant behind the titles of the requests: every result held and every
  request issued carries a non-empty title.\<close>

definition titled :: "app \<Rightarrow> bool" where
  "titled s \<longleftrightarrow>
     (\<forall>r \<in> set (results s). title r \<noteq> []) \<and>
     (\<forall>q \<in> set (fetched s). param ''titles'' q \<noteq> Some [])"

subsection \<open>Replies and states of the spec's scenarios\<close>

definition search_reply :: "SearchResult list \<Rightarrow> fetch_outcome" where
  "search_reply rs =
     Response True (Json \<lparr>data_error = None, query = Some \<lparr>search = Some rs, pages = None\<rparr>\<rparr>)"

definition extract_reply :: "jsstring \<Rightarrow> jsstring option \<Rightarrow> fetch_outcome" where
  "extract_reply t ex =
     Response True
       (Json \<lparr>data_error = None,
              query = Some \<lparr>search = None,
                            pages = Some [\<lparr>page_title = t, page_extract = ex\<rparr>]\<rparr>\<rparr>)"

definition error_reply :: "jsstring \<Rightarrow> fetch_outcome" where
  "error_reply i = Response True (Json \<lparr>data_error = Some \<lparr>info = i\<rparr>, query = None\<rparr>)"

definition quantum :: "SearchResult list" where
  "quantum =
     [\<lparr>pageid = 25220, title = lit ''Quantum computing'', snippet = lit ''A <b>quantum</b> computer''\<rparr>,
      \<lparr>pageid = 25284, title = lit ''Qubit'', snippet = lit ''A <b>quantum</b> bit''\<rparr>,
      \<lparr>pageid = 61437, title = lit ''Quantum supremacy'', snippet = lit ''<b>Quantum</b> advantage''\<rparr>]"

definition eleven :: "SearchResult list" where
  "eleven = map (\<lambda>i. \<lparr>pageid = int i, title = lit ''Cat'', snippet = lit ''cat''\<rparr>) [0..<11]"

definition typed :: "jsstring \<Rightarrow> app" where
  "typed t = initial\<lparr>searchTerm := t\<rparr>"

definition populated :: app where
  "populated = submitSearch (search_reply quantum) (typed (lit ''Quantum computing''))"

definition failed_pick :: app where
  "failed_pick = selectArticle (lit ''Qubit'') (extract_reply (lit ''Qubit'') None) populated"

definition viewing :: app where
  "viewing =
     selectArticle (lit ''Quantum computing'')
       (extract_reply (lit ''Quantum computing'') (Some (lit ''Quantum computing is...'')))
       populated"

definition scenario :: "event list" where
  "scenario =
     [Input (lit ''Quantum computing''), Submit, Settle 0 (search_reply quantum), Click 0,
      Settle 0 (extract_reply (lit ''Quantum computing'') (Some (lit ''Quantum computing is...''))),
      Close]"

definition untitled :: "event list" where
  "untitled =
     [Input (lit ''a''), Submit,
      Settle 0 (search_reply [\<lparr>pageid = 1, title = [], snippet = lit ''a''\<rparr>]), Click 0]"

definition serial_picks :: "event list" where
  "serial_picks =
     [Input (lit ''Quantum computing''), Submit, Settle 0 (search_reply quantum),
      Click 1, Settle 0 (extract_reply (lit ''Qubit'') None),
      Click 0,
      Settle 0 (extract_reply (lit ''Quantum computing'') (Some (lit ''Quantum computing is...'')))]"

definition overlapping_picks :: "event list" where
  "overlapping_picks =
     [Input (lit ''Quantum computing''), Submit, Settle 0 (search_reply quantum),
      Click 0, Click 1,
      Settle 0 (extract_reply (lit ''Quantum computing'') (Some (lit ''Quantum computing is...''))),
      Settle 0 (extract_reply (lit ''Qubit'') None)]"

section \<open>Properties\<close>

subsection \<open>Trimming\<close>

lemma dropWhile_all_iff: "(\<forall>c \<in> set (dropWhile P s). P c) \<longleftrightarrow> (\<forall>c \<in> set s. P c)"
proof
  assume all: "\<forall>c \<in> set (dropWhile P s). P c"
  show "\<forall>c \<in> set s. P c"
  proof (cases "dropWhile P s")
    case Nil
    then show ?thesis by (simp add: dropWhile_eq_Nil_conv)
  next
    case (Cons d ds)
    then have "\<not> P d" by (metis hd_dropWhile list.sel(1) list.distinct(1))
    moreover from Cons all have "P d" by simp
    ultimately show ?thesis by simp
  qed
next
  assume "\<forall>c \<in> set s. P c"
  then show "\<forall>c \<in> set (dropWhile P s). P c"
    by (auto dest: set_dropWhileD)
qed

lemma trim_empty_iff: "trim s = [] \<longleftrightarrow> (\<forall>c \<in> set s. is_ws c)"
  by (simp add: trim_def dropWhile_all_iff)

text \<open>
  C7. When the search term is empty or consists of whitespace only, \<^verbatim>\<open>handleSearch\<close>
  returns at once: nothing is awaited, no request is issued, and the state (results,
  selected article, error, loading flag, has-searched flag and all the rest) is the
  state it was called in; so is the state after the complete operation.
\<close>

theorem C7_blank_term_noop:
  assumes "\<forall>c \<in> set (searchTerm s). is_ws c"
  shows "handleSearch s = (s, None) \<and> submitSearch out s = s \<and>
         fetched (submitSearch out s) = fetched s"
proof -
  from assms have "trim (searchTerm s) = []" by (simp add: trim_empty_iff)
  then have "handleSearch s = (s, None)" by (simp add: handleSearch_def)
  then show ?thesis by (simp add: submitSearch_def)
qed

theorem C7_blank_term_noop_witness:
  "list_all is_ws (searchTerm (typed (lit '' ''))) \<and>
   handleSearch (typed (lit '' '')) = (typed (lit '' ''), None) \<and>
   submitSearch (Rejected TypeError) (typed (lit '' ''))
     = typed (lit '' '')"
proof -
  have h: "\<forall>c \<in> set (searchTerm (typed (lit '' ''))). is_ws c"
    by (simp add: typed_def lit_def is_ws_def)
  show ?thesis
    using h C7_blank_term_noop [OF h, of "Rejected TypeError"] by (simp add: list_all_iff)
qed

subsection \<open>The handlers, branch by branch\<close>

lemma handleSearch_nonblank:
  "trim (searchTerm s) \<noteq> [] \<Longrightarrow>
   handleSearch s =
     (s\<lparr>hasSearched := True, loading := True, results := [], selectedArticle := None,
        error := None, fetched := fetched s @ [search_request (searchTerm s)]\<rparr>,
      Some (SearchPending (searchTerm s)))"
  by (simp add: handleSearch_def)

lemma search_try_ok:
  "data_error data = None \<Longrightarrow> search_try (Response True (Json data)) = Inr (matches data)"
  by (simp add: search_try_def)

lemma extract_try_missing:
  "returned_extract data = None \<or> returned_extract data = Some [] \<Longrightarrow>
   extract_try t (Response True (Json data)) s = Inr (s\<lparr>error := Some (no_extract_message t)\<rparr>)"
  by (auto simp: extract_try_def returned_extract_def split: option.splits)

lemma extract_try_found:
  "first_page data = Some page \<Longrightarrow> page_extract page = Some ex \<Longrightarrow> ex \<noteq> [] \<Longrightarrow>
   encodeURIComponent (page_title page) = Inr enc \<Longrightarrow>
   extract_try t (Response True (Json data)) s =
     Inr (s\<lparr>selectedArticle :=
             Some \<lparr>article_title = page_title page, content = ex, url = wiki_prefix @ enc\<rparr>\<rparr>)"
  by (simp add: extract_try_def)

lemma unreserved_not_surrogate:
  "uri_unreserved c \<Longrightarrow> \<not> trail_surrogate c \<and> \<not> lead_surrogate c"
  unfolding uri_unreserved_def trail_surrogate_def lead_surrogate_def lit_def
  by (auto simp: word_le_def word_less_def)

lemma encodeURIComponent_succeeds_iff:
  "(\<exists>enc. encodeURIComponent t = Inr enc) \<longleftrightarrow> well_formed t"
proof (induction t rule: encodeURIComponent.induct)
  case 1
  then show ?case by simp
next
  case (2 c cs)
  show ?case
  proof (cases "uri_unreserved c")
    case True
    with 2 unreserved_not_surrogate [OF True] show ?thesis
      by (auto split: sum.splits)
  next
    case False
    show ?thesis
    proof (cases "trail_surrogate c")
      case True
      with False show ?thesis by simp
    next
      case nt: False
      show ?thesis
      proof (cases "lead_surrogate c")
        case True
        with False nt 2 show ?thesis
          by (cases cs) (auto split: sum.splits)
      next
        case nl: False
        with False nt 2 show ?thesis
          by (auto split: sum.splits)
      qed
    qed
  qed
qed

lemmas encode_eval =
  lit_def uri_unreserved_def trail_surrogate_def lead_surrogate_def
  percent_encode_def utf8_def percent_octet_def hex_digit_def

lemma populated_eq:
  "populated = \<lparr>searchTerm = lit ''Quantum computing'', results = quantum, loading = False,
     error = None, selectedArticle = None, hasSearched = True,
     fetched = [search_request (lit ''Quantum computing'')], console = []\<rparr>"
  by (simp add: populated_def typed_def initial_def submitSearch_def handleSearch_def
      handleSearch_resume_def search_try_def search_reply_def matches_def quantum_def
      trim_def lit_def is_ws_def)

lemma encode_quantum:
  "encodeURIComponent (lit ''Quantum computing'') = Inr (lit ''Quantum%20computing'')"
  by (simp add: encode_eval)

subsection \<open>The claims\<close>

text \<open>
  C1 (as amended). When the term is not blank and the search succeeds with at least one
  match, \<^verbatim>\<open>handleSearch\<close> ends with the result list equal to the list of the response:
  the same entries, in the same order, as many as the response holds. No error is set,
  no article is selected and the loading flag is down. The limit of ten is the
  \<^verbatim>\<open>srlimit\<close> parameter of the request; the handler does not shorten the list it is
  given.
\<close>

theorem C1_results_as_returned:
  assumes "trim (searchTerm s) \<noteq> []"
    and "data_error data = None" and "matches data \<noteq> []"
  shows "results (submitSearch (Response True (Json data)) s) = matches data \<and>
         length (results (submitSearch (Response True (Json data)) s)) = length (matches data) \<and>
         error (submitSearch (Response True (Json data)) s) = None \<and>
         selectedArticle (submitSearch (Response True (Json data)) s) = None \<and>
         \<not> loading (submitSearch (Response True (Json data)) s) \<and>
         param ''srlimit'' (last (fetched (submitSearch (Response True (Json data)) s)))
           = Some (lit ''10'')"
  using assms
  by (simp add: submitSearch_def handleSearch_nonblank handleSearch_resume_def search_try_ok
      search_request_def)

theorem C1_results_as_returned_witness:
  "trim (searchTerm (typed (lit ''Quantum computing''))) \<noteq> [] \<and>
   matches \<lparr>data_error = None, query = Some \<lparr>search = Some quantum, pages = None\<rparr>\<rparr> \<noteq> [] \<and>
   results (submitSearch (search_reply quantum) (typed (lit ''Quantum computing''))) = quantum \<and>
   length (results (submitSearch (search_reply quantum) (typed (lit ''Quantum computing'')))) = 3"
proof -
  have h1: "trim (searchTerm (typed (lit ''Quantum computing''))) \<noteq> []"
    by (simp add: typed_def trim_def lit_def is_ws_def)
  have h2: "data_error \<lparr>data_error = None, query = Some \<lparr>search = Some quantum, pages = None\<rparr>\<rparr> = None"
    by simp
  have h3: "matches \<lparr>data_error = None, query = Some \<lparr>search = Some quantum, pages = None\<rparr>\<rparr> \<noteq> []"
    by (simp add: matches_def quantum_def)
  have "length quantum = 3" by (simp add: quantum_def)
  then show ?thesis
    using h1 h3 C1_results_as_returned [OF h1 h2 h3] by (simp add: search_reply_def matches_def)
qed

text \<open>A reply of eleven matches is stored whole: the length is 11, not the 10 a cap would
  give.\<close>

theorem C1_cap_counterexample:
  "trim (searchTerm (typed (lit ''cat''))) \<noteq> [] \<and>
   length (matches \<lparr>data_error = None, query = Some \<lparr>search = Some eleven, pages = None\<rparr>\<rparr>) = 11 \<and>
   length (results (submitSearch (search_reply eleven) (typed (lit ''cat'')))) = 11 \<and>
   length (results (submitSearch (search_reply eleven) (typed (lit ''cat''))))
     \<noteq> min (length (matches \<lparr>data_error = None, query = Some \<lparr>search = Some eleven, pages = None\<rparr>\<rparr>)) 10"
  by (simp add: typed_def initial_def submitSearch_def handleSearch_def
      handleSearch_resume_def search_try_def search_reply_def matches_def eleven_def
      trim_def lit_def is_ws_def)

text \<open>
  C2 (as amended). When the response's first page carries a non-empty extract and a
  title without unpaired surrogates, \<^verbatim>\<open>fetchArticleExtract\<close> ends with an article selected
  whose title is the title of the returned page, whose content is the returned extract
  as it came, and whose URL is the prefix \<^verbatim>\<open>https://en.wikipedia.org/wiki/\<close> followed by
  \<^verbatim>\<open>encodeURIComponent\<close> of the returned page's title; the error is cleared and the
  loading flag is down. The title the handler was called with enters the request only.
\<close>

theorem C2_viewing_returned_page:
  assumes "first_page data = Some page"
    and "page_extract page = Some ex" and "ex \<noteq> []"
    and "well_formed (page_title page)"
  shows "\<exists>enc. encodeURIComponent (page_title page) = Inr enc \<and>
           selectedArticle (selectArticle t (Response True (Json data)) s)
             = Some \<lparr>article_title = page_title page, content = ex,
                     url = lit ''https://en.wikipedia.org/wiki/'' @ enc\<rparr> \<and>
           error (selectArticle t (Response True (Json data)) s) = None \<and>
           \<not> loading (selectArticle t (Response True (Json data)) s)"
proof -
  from assms(4) obtain enc where enc: "encodeURIComponent (page_title page) = Inr enc"
    using encodeURIComponent_succeeds_iff by blast
  from assms(1-3) enc show ?thesis
    by (simp add: selectArticle_def fetchArticleExtract_def fetchArticleExtract_resume_def
        extract_try_found wiki_prefix_def)
qed

theorem C2_viewing_returned_page_witness:
  "well_formed (lit ''Quantum computing'') \<and>
   selectedArticle viewing
     = Some \<lparr>article_title = lit ''Quantum computing'', content = lit ''Quantum computing is...'',
             url = lit ''https://en.wikipedia.org/wiki/Quantum%20computing''\<rparr>"
proof -
  let ?page = "\<lparr>page_title = lit ''Quantum computing'',
                  page_extract = Some (lit ''Quantum computing is...'')\<rparr>"
  let ?data = "\<lparr>data_error = None, query = Some \<lparr>search = None, pages = Some [?page]\<rparr>\<rparr>"
  have h1: "first_page ?data = Some ?page" by (simp add: first_page_def)
  have h2: "page_extract ?page = Some (lit ''Quantum computing is...'')" by simp
  have h3: "lit ''Quantum computing is...'' \<noteq> []" by (simp add: lit_def)
  have h4: "well_formed (page_title ?page)"
    by (simp add: lit_def trail_surrogate_def lead_surrogate_def)
  from C2_viewing_returned_page [OF h1 h2 h3 h4, of "lit ''Quantum computing''" populated]
  have "selectedArticle viewing
     = Some \<lparr>article_title = lit ''Quantum computing'', content = lit ''Quantum computing is...'',
             url = lit ''https://en.wikipedia.org/wiki/'' @ lit ''Quantum%20computing''\<rparr>"
    by (auto simp: viewing_def extract_reply_def encode_quantum)
  with h4 show ?thesis by (simp add: lit_def)
qed

text \<open>
  Asked for \<^verbatim>\<open>quantum_computing\<close> and answered with the page \<^verbatim>\<open>Quantum computing\<close>, the
  handler builds the URL from the answer, not from the title it was asked for; and a
  returned title that is a lone surrogate makes \<^verbatim>\<open>encodeURIComponent\<close> throw, which ends
  in the generic error with no article selected.
\<close>

theorem C2_requested_title_counterexample:
  "selectedArticle
     (selectArticle (lit ''quantum_computing'')
        (extract_reply (lit ''Quantum computing'') (Some (lit ''Quantum computing is...''))) populated)
     = Some \<lparr>article_title = lit ''Quantum computing'', content = lit ''Quantum computing is...'',
             url = lit ''https://en.wikipedia.org/wiki/Quantum%20computing''\<rparr> \<and>
   encodeURIComponent (lit ''quantum_computing'') = Inr (lit ''quantum_computing'') \<and>
   lit ''https://en.wikipedia.org/wiki/Quantum%20computing''
     \<noteq> lit ''https://en.wikipedia.org/wiki/'' @ lit ''quantum_computing'' \<and>
   selectedArticle (selectArticle [0xD800] (extract_reply [0xD800] (Some (lit ''x''))) populated) = None \<and>
   error (selectArticle [0xD800] (extract_reply [0xD800] (Some (lit ''x''))) populated)
     = Some (lit ''Failed to load article content.'')"
  by (simp add: selectArticle_def fetchArticleExtract_def fetchArticleExtract_resume_def
      extract_try_def extract_reply_def first_page_def wiki_prefix_def article_failed_message_def
      encode_eval)

text \<open>
  C3. Whatever the state before, a call of \<^verbatim>\<open>handleSearch\<close> with a term that is not blank
  has, at the moment it suspends on its request (so before that request resolves),
  cleared the error, the selected article and the result list.
\<close>

theorem C3_new_search_clears:
  assumes "trim (searchTerm s) \<noteq> []"
  shows "snd (handleSearch s) = Some (SearchPending (searchTerm s)) \<and>
         error (fst (handleSearch s)) = None \<and>
         selectedArticle (fst (handleSearch s)) = None \<and>
         results (fst (handleSearch s)) = [] \<and>
         loading (fst (handleSearch s)) \<and>
         fetched (fst (handleSearch s)) = fetched s @ [search_request (searchTerm s)]"
  using assms by (simp add: handleSearch_nonblank)

theorem C3_new_search_clears_witness:
  "trim (searchTerm viewing) \<noteq> [] \<and>
   selectedArticle viewing \<noteq> None \<and> results viewing \<noteq> [] \<and>
   snd (handleSearch viewing) = Some (SearchPending (lit ''Quantum computing'')) \<and>
   error (fst (handleSearch viewing)) = None \<and>
   selectedArticle (fst (handleSearch viewing)) = None \<and>
   results (fst (handleSearch viewing)) = []"
proof -
  have v: "searchTerm viewing = lit ''Quantum computing'' \<and> results viewing = quantum \<and>
           selectedArticle viewing \<noteq> None"
    by (simp add: viewing_def populated_eq selectArticle_def fetchArticleExtract_def
        fetchArticleExtract_resume_def extract_try_def extract_reply_def first_page_def
        encode_quantum) (simp add: lit_def)
  have h: "trim (searchTerm viewing) \<noteq> []"
    by (simp add: v) (simp add: trim_def lit_def is_ws_def)
  show ?thesis
    using h v C3_new_search_clears [OF h] by (simp add: quantum_def)
qed

text \<open>
  C4. When the term is not blank and the search succeeds with no match, \<^verbatim>\<open>handleSearch\<close>
  ends in the error state (error set, nothing selected, no results, loading flag down)
  and the message is \<^verbatim>\<open>No results found for "<term>"\<close>, which contains the term as
  it was typed.
\<close>

theorem C4_zero_matches_error:
  assumes "trim (searchTerm s) \<noteq> []"
    and "data_error data = None" and "matches data = []"
  shows "error (submitSearch (Response True (Json data)) s)
           = Some (lit ''No results found for \"'' @ searchTerm s @ lit ''\"'') \<and>
         sublist (searchTerm s) (the (error (submitSearch (Response True (Json data)) s))) \<and>
         results (submitSearch (Response True (Json data)) s) = [] \<and>
         selectedArticle (submitSearch (Response True (Json data)) s) = None \<and>
         \<not> loading (submitSearch (Response True (Json data)) s)"
  using assms
  by (simp add: submitSearch_def handleSearch_nonblank handleSearch_resume_def search_try_ok
      no_results_message_def)

theorem C4_zero_matches_error_witness:
  "trim (searchTerm (typed (lit ''zzqx''))) \<noteq> [] \<and>
   matches \<lparr>data_error = None, query = Some \<lparr>search = Some [], pages = None\<rparr>\<rparr> = [] \<and>
   error (submitSearch (search_reply []) (typed (lit ''zzqx'')))
     = Some (lit ''No results found for \"zzqx\"'') \<and>
   sublist (lit ''zzqx'') (the (error (submitSearch (search_reply []) (typed (lit ''zzqx'')))))"
proof -
  have h1: "trim (searchTerm (typed (lit ''zzqx''))) \<noteq> []"
    by (simp add: typed_def trim_def lit_def is_ws_def)
  have h2: "data_error \<lparr>data_error = None, query = Some \<lparr>search = Some [], pages = None\<rparr>\<rparr> = None"
    by simp
  have h3: "matches \<lparr>data_error = None, query = Some \<lparr>search = Some [], pages = None\<rparr>\<rparr> = []"
    by (simp add: matches_def)
  have t: "searchTerm (typed (lit ''zzqx'')) = lit ''zzqx''"
    by (simp add: typed_def)
  have m: "lit ''No results found for \"zzqx\"''
             = lit ''No results found for \"'' @ lit ''zzqx'' @ lit ''\"''"
    by (simp add: lit_def)
  show ?thesis
    using h1 h3 C4_zero_matches_error [OF h1 h2 h3] unfolding t search_reply_def m
    by simp
qed

text \<open>
  C5. When the response has no first page, or its first page has no extract or an empty
  one, \<^verbatim>\<open>fetchArticleExtract\<close> ends in the error state with the message
  \<^verbatim>\<open>Could not retrieve full article content for <title>.\<close> naming the title it was
  called with, and no article is selected.
\<close>

theorem C5_missing_extract_error:
  assumes "returned_extract data = None \<or> returned_extract data = Some []"
  shows "error (selectArticle t (Response True (Json data)) s)
           = Some (lit ''Could not retrieve full article content for '' @ t @ lit ''.'') \<and>
         sublist t (the (error (selectArticle t (Response True (Json data)) s))) \<and>
         selectedArticle (selectArticle t (Response True (Json data)) s) = None \<and>
         \<not> loading (selectArticle t (Response True (Json data)) s)"
  using assms
  by (simp add: selectArticle_def fetchArticleExtract_def fetchArticleExtract_resume_def
      extract_try_missing no_extract_message_def)

theorem C5_missing_extract_error_witness:
  "returned_extract
     \<lparr>data_error = None,
      query = Some \<lparr>search = None,
                    pages = Some [\<lparr>page_title = lit ''Qubit'', page_extract = Some []\<rparr>]\<rparr>\<rparr> = Some [] \<and>
   error (selectArticle (lit ''Qubit'') (extract_reply (lit ''Qubit'') (Some [])) populated)
     = Some (lit ''Could not retrieve full article content for Qubit.'') \<and>
   selectedArticle (selectArticle (lit ''Qubit'') (extract_reply (lit ''Qubit'') (Some [])) populated)
     = None \<and>
   error failed_pick = Some (lit ''Could not retrieve full article content for Qubit.'')"
proof -
  let ?d = "\<lambda>ex. \<lparr>data_error = None,
      query = Some \<lparr>search = None,
                    pages = Some [\<lparr>page_title = lit ''Qubit'', page_extract = ex\<rparr>]\<rparr>\<rparr>"
  have h1: "returned_extract (?d (Some [])) = Some []"
    by (simp add: returned_extract_def first_page_def)
  have h2: "returned_extract (?d None) = None"
    by (simp add: returned_extract_def first_page_def)
  show ?thesis
    using h1 C5_missing_extract_error [OF disjI2 [OF h1], of "lit ''Qubit''" populated]
      C5_missing_extract_error [OF disjI1 [OF h2], of "lit ''Qubit''" populated]
    unfolding failed_pick_def extract_reply_def
    by (simp add: lit_def)
qed

lemma extract_try_shape:
  "extract_try t out b = Inr s1 \<Longrightarrow>
   s1 = b\<lparr>error := Some (no_extract_message t)\<rparr> \<or> (\<exists>a. s1 = b\<lparr>selectedArticle := Some a\<rparr>)"
  unfolding extract_try_def
  by (auto split: fetch_outcome.splits body.splits option.splits sum.splits if_splits)

lemma resume_selected:
  assumes "selectedArticle (fetchArticleExtract_resume t out b) = Some a"
    and "selectedArticle b = None"
  shows "fetchArticleExtract_resume t out b = b\<lparr>selectedArticle := Some a, loading := False\<rparr>"
proof (cases "extract_try t out b")
  case (Inl e)
  with assms show ?thesis by (simp add: fetchArticleExtract_resume_def)
next
  case (Inr s1)
  from extract_try_shape [OF Inr] assms Inr show ?thesis
    by (auto simp: fetchArticleExtract_resume_def)
qed

lemma selectArticle_selected:
  assumes "selectedArticle (selectArticle t out s) = Some a"
  shows "selectArticle t out s =
           s\<lparr>selectedArticle := Some a, loading := False, error := None,
             fetched := fetched s @ [extract_request t]\<rparr>"
proof -
  let ?b = "s\<lparr>selectedArticle := None, loading := True, error := None,
             fetched := fetched s @ [extract_request t]\<rparr>"
  have eq: "selectArticle t out s = fetchArticleExtract_resume t out ?b"
    by (simp add: selectArticle_def fetchArticleExtract_def)
  have "selectedArticle ?b = None" by simp
  from resume_selected [OF assms [unfolded eq] this] eq show ?thesis by simp
qed


lemma failed_pick_eq:
  "failed_pick = populated\<lparr>error := Some (lit ''Could not retrieve full article content for Qubit.''),
     fetched := [search_request (lit ''Quantum computing''), extract_request (lit ''Qubit'')]\<rparr>"
  by (simp add: failed_pick_def populated_eq selectArticle_def fetchArticleExtract_def
      fetchArticleExtract_resume_def extract_try_def extract_reply_def first_page_def
      no_extract_message_def) (simp add: lit_def)

lemma viewing_eq:
  "viewing = populated\<lparr>selectedArticle :=
       Some \<lparr>article_title = lit ''Quantum computing'', content = lit ''Quantum computing is...'',
             url = lit ''https://en.wikipedia.org/wiki/Quantum%20computing''\<rparr>,
     fetched := [search_request (lit ''Quantum computing''),
                 extract_request (lit ''Quantum computing'')]\<rparr>"
  by (simp add: viewing_def populated_eq selectArticle_def fetchArticleExtract_def
      fetchArticleExtract_resume_def extract_try_def extract_reply_def first_page_def
      encode_quantum wiki_prefix_def) (simp add: lit_def)

text \<open>
  C6 (as amended). \<^verbatim>\<open>clearArticle\<close> has no condition, changes the selected article and
  nothing else, and issues no request. After a \<^verbatim>\<open>fetchArticleExtract\<close> that selected an
  article, it leaves the state held before that call except that the error is cleared,
  the loading flag is down and the request of the call is on record: the result list,
  the search term and the has-searched flag are as they were.
\<close>

theorem C6_dismiss_clears_article_only:
  assumes "selectedArticle (selectArticle t out s) \<noteq> None"
  shows "dismissArticle (selectArticle t out s) =
           s\<lparr>selectedArticle := None, loading := False, error := None,
             fetched := fetched s @ [extract_request t]\<rparr> \<and>
         results (dismissArticle (selectArticle t out s)) = results s \<and>
         fetched (dismissArticle (selectArticle t out s)) = fetched (selectArticle t out s) \<and>
         dismissArticle x = x\<lparr>selectedArticle := None\<rparr> \<and>
         fetched (dismissArticle x) = fetched x"
proof -
  from assms obtain a where a: "selectedArticle (selectArticle t out s) = Some a"
    by blast
  show ?thesis
    by (simp add: dismissArticle_def clearArticle_def selectArticle_selected [OF a])
qed

theorem C6_dismiss_clears_article_only_witness:
  "selectedArticle viewing \<noteq> None \<and>
   dismissArticle viewing
     = populated\<lparr>fetched := fetched populated @ [extract_request (lit ''Quantum computing'')]\<rparr> \<and>
   results (dismissArticle viewing) = quantum \<and> length (results (dismissArticle viewing)) = 3"
proof -
  have h: "selectedArticle
             (selectArticle (lit ''Quantum computing'')
                (extract_reply (lit ''Quantum computing'') (Some (lit ''Quantum computing is...'')))
                populated) \<noteq> None"
    using viewing_eq by (simp add: viewing_def)
  note th = C6_dismiss_clears_article_only [OF h, of initial, folded viewing_def]
  from th have d: "dismissArticle viewing
      = populated\<lparr>selectedArticle := None, loading := False, error := None,
          fetched := fetched populated @ [extract_request (lit ''Quantum computing'')]\<rparr>"
    by (rule conjunct1)
  from th have r: "results (dismissArticle viewing) = results populated"
    by blast
  have v: "selectedArticle viewing \<noteq> None"
    using h by (simp add: viewing_def)
  have q: "results populated = quantum \<and> length quantum = 3"
    by (simp add: populated_eq quantum_def)
  show ?thesis
    unfolding d using v q by (simp add: populated_eq)
qed

text \<open>
  A pick that failed leaves its error on display beside the result list; a second pick
  that succeeds clears it, and closing the article does not bring it back.
\<close>

theorem C6_prior_error_counterexample:
  "error failed_pick = Some (lit ''Could not retrieve full article content for Qubit.'') \<and>
   results failed_pick = quantum \<and>
   selectedArticle
     (selectArticle (lit ''Quantum computing'')
        (extract_reply (lit ''Quantum computing'') (Some (lit ''Quantum computing is...'')))
        failed_pick) \<noteq> None \<and>
   error
     (dismissArticle
        (selectArticle (lit ''Quantum computing'')
           (extract_reply (lit ''Quantum computing'') (Some (lit ''Quantum computing is...'')))
           failed_pick)) = None \<and>
   (dismissArticle
      (selectArticle (lit ''Quantum computing'')
         (extract_reply (lit ''Quantum computing'') (Some (lit ''Quantum computing is...'')))
         failed_pick))\<lparr>fetched := fetched failed_pick\<rparr> \<noteq> failed_pick"
proof -
  have "selectArticle (lit ''Quantum computing'')
         (extract_reply (lit ''Quantum computing'') (Some (lit ''Quantum computing is...'')))
         failed_pick
        = failed_pick\<lparr>selectedArticle :=
             Some \<lparr>article_title = lit ''Quantum computing'', content = lit ''Quantum computing is...'',
                   url = wiki_prefix @ lit ''Quantum%20computing''\<rparr>,
           error := None,
           fetched := fetched failed_pick @ [extract_request (lit ''Quantum computing'')]\<rparr>"
    by (simp add: failed_pick_eq populated_eq selectArticle_def fetchArticleExtract_def
        fetchArticleExtract_resume_def extract_try_def extract_reply_def first_page_def
        encode_quantum) (simp add: lit_def)
  then show ?thesis
    by (simp add: dismissArticle_def clearArticle_def failed_pick_eq populated_eq)
qed

subsection \<open>Failures\<close>

lemma search_failure_generic:
  assumes "trim (searchTerm s) \<noteq> []" and "search_try out = Inl err"
  shows "error (submitSearch out s) = Some (lit ''Failed to fetch search results from Wikipedia.'') \<and>
         console (submitSearch out s) = console s @ [(lit ''Search error:'', err)] \<and>
         selectedArticle (submitSearch out s) = None \<and> results (submitSearch out s) = [] \<and>
         \<not> loading (submitSearch out s)"
  using assms
  by (simp add: submitSearch_def handleSearch_nonblank handleSearch_resume_def
      search_failed_message_def)

lemma search_try_failures:
  "search_try (Rejected e) = Inl e"
  "search_try (Response False b) = Inl (Error (lit ''Network response was not ok''))"
  "search_try (Response True (NotJson e)) = Inl e"
  "search_try (Response True JsonNull) = Inl TypeError"
  "data_error data = Some p \<Longrightarrow> search_try (Response True (Json data)) = Inl (Error (info p))"
  by (simp_all add: search_try_def)

lemma extract_try_failures:
  "extract_try t (Rejected e) s = Inl e"
  "extract_try t (Response False b) s = Inl (Error (lit ''Network response was not ok''))"
  "extract_try t (Response True (NotJson e)) s = Inl e"
  "extract_try t (Response True JsonNull) s = Inl TypeError"
  by (simp_all add: extract_try_def)

lemma article_failure_generic:
  assumes "extract_try t out (fst (fetchArticleExtract t s)) = Inl err"
  shows "error (selectArticle t out s) = Some (lit ''Failed to load article content.'') \<and>
         console (selectArticle t out s) = console s @ [(lit ''Article fetch error:'', err)] \<and>
         selectedArticle (selectArticle t out s) = None \<and> \<not> loading (selectArticle t out s)"
  using assms
  by (simp add: selectArticle_def fetchArticleExtract_def fetchArticleExtract_resume_def
      article_failed_message_def)

text \<open>
  C8. A transport failure, a non-success status or an error payload of the remote
  service should end in the error state with a generic message, the detail going to
  the console only. \<^verbatim>\<open>handleSearch\<close> does so in all three cases, and
  \<^verbatim>\<open>fetchArticleExtract\<close> in the first two (the lemmas above). \<^verbatim>\<open>fetchArticleExtract\<close>
  has no test of \<^verbatim>\<open>data.error\<close>: an error payload reaches the branch of the missing
  extract, the message names the title instead of being the generic one, and nothing is
  logged, where the same payload sent to \<^verbatim>\<open>handleSearch\<close> is logged and generalised.
\<close>

theorem C8_article_error_payload_not_generic:
  "error (selectArticle (lit ''Qubit'') (error_reply (lit ''ratelimited'')) populated)
     = Some (lit ''Could not retrieve full article content for Qubit.'') \<and>
   error (selectArticle (lit ''Qubit'') (error_reply (lit ''ratelimited'')) populated)
     \<noteq> Some article_failed_message \<and>
   console (selectArticle (lit ''Qubit'') (error_reply (lit ''ratelimited'')) populated) = [] \<and>
   error (submitSearch (error_reply (lit ''ratelimited'')) (typed (lit ''Qubit'')))
     = Some search_failed_message \<and>
   console (submitSearch (error_reply (lit ''ratelimited'')) (typed (lit ''Qubit'')))
     = [(lit ''Search error:'', Error (lit ''ratelimited''))]"
proof -
  have a: "selectArticle (lit ''Qubit'') (error_reply (lit ''ratelimited'')) populated
        = populated\<lparr>error := Some (no_extract_message (lit ''Qubit'')),
            fetched := fetched populated @ [extract_request (lit ''Qubit'')]\<rparr>"
    by (simp add: populated_eq selectArticle_def fetchArticleExtract_def
        fetchArticleExtract_resume_def extract_try_def error_reply_def first_page_def)
  have m: "no_extract_message (lit ''Qubit'')
             = lit ''Could not retrieve full article content for Qubit.'' \<and>
           no_extract_message (lit ''Qubit'') \<noteq> article_failed_message"
    by (simp add: no_extract_message_def article_failed_message_def lit_def)
  have t: "trim (searchTerm (typed (lit ''Qubit''))) \<noteq> []"
    by (simp add: typed_def trim_def lit_def is_ws_def)
  have f: "search_try (error_reply (lit ''ratelimited'')) = Inl (Error (lit ''ratelimited''))"
    by (simp add: error_reply_def search_try_def)
  have c: "console (typed (lit ''Qubit'')) = []"
    by (simp add: typed_def initial_def)
  have e: "error (selectArticle (lit ''Qubit'') (error_reply (lit ''ratelimited'')) populated)
             = Some (lit ''Could not retrieve full article content for Qubit.'')"
    unfolding a using m by simp
  have n: "error (selectArticle (lit ''Qubit'') (error_reply (lit ''ratelimited'')) populated)
             \<noteq> Some article_failed_message"
    unfolding a by (simp add: no_extract_message_def article_failed_message_def lit_def)
  have l: "console (selectArticle (lit ''Qubit'') (error_reply (lit ''ratelimited'')) populated) = []"
    unfolding a by (simp add: populated_eq)
  from search_failure_generic [OF t f]
  have g: "error (submitSearch (error_reply (lit ''ratelimited'')) (typed (lit ''Qubit'')))
             = Some search_failed_message \<and>
           console (submitSearch (error_reply (lit ''ratelimited'')) (typed (lit ''Qubit'')))
             = [(lit ''Search error:'', Error (lit ''ratelimited''))]"
    unfolding c search_failed_message_def by simp
  from e n l g show ?thesis by blast
qed

subsection \<open>Mutual exclusion\<close>

lemma exclusive_resume:
  "selectedArticle b = None \<Longrightarrow> error b = None \<Longrightarrow>
   exclusive (fetchArticleExtract_resume t out b)"
proof (cases "extract_try t out b")
  case (Inl e)
  assume "selectedArticle b = None"
  with Inl show ?thesis by (simp add: fetchArticleExtract_resume_def exclusive_def)
next
  case (Inr s1)
  assume "selectedArticle b = None" "error b = None"
  with extract_try_shape [OF Inr] Inr show ?thesis
    by (auto simp: fetchArticleExtract_resume_def exclusive_def)
qed

lemma submitSearch_no_article:
  "trim (searchTerm s) \<noteq> [] \<Longrightarrow> selectedArticle (submitSearch out s) = None"
  by (cases "search_try out")
     (simp_all add: submitSearch_def handleSearch_nonblank handleSearch_resume_def Let_def)

lemma submitSearch_blank: "trim (searchTerm s) = [] \<Longrightarrow> submitSearch out s = s"
  by (simp add: submitSearch_def handleSearch_def)

text \<open>Each operation run from its call to its end with nothing in between.\<close>

lemma complete_operation_exclusive:
  "exclusive (selectArticle t out s) \<and>
   exclusive (dismissArticle s) \<and>
   (trim (searchTerm s) \<noteq> [] \<longrightarrow> exclusive (submitSearch out s)) \<and>
   (trim (searchTerm s) = [] \<longrightarrow> submitSearch out s = s) \<and>
   (exclusive s \<longrightarrow> exclusive (submitSearch out s))"
proof -
  have 1: "exclusive (selectArticle t out s)"
    by (simp add: selectArticle_def fetchArticleExtract_def exclusive_resume)
  have 2: "exclusive (dismissArticle s)"
    by (simp add: dismissArticle_def clearArticle_def exclusive_def)
  have 3: "trim (searchTerm s) \<noteq> [] \<longrightarrow> exclusive (submitSearch out s)"
    by (simp add: submitSearch_no_article exclusive_def)
  have 4: "trim (searchTerm s) = [] \<longrightarrow> submitSearch out s = s"
    by (simp add: submitSearch_blank)
  from 3 4 have 5: "exclusive s \<longrightarrow> exclusive (submitSearch out s)"
    by (cases "trim (searchTerm s) = []") simp_all
  from 1 2 3 4 5 show ?thesis by blast
qed

text \<open>The event loop, one event at a time, from a state with at most one fetch in flight.\<close>

lemma settled_exclusive: "settled m \<Longrightarrow> exclusive (fst m)"
  by (simp add: settled_def exclusive_def split: if_splits)

lemma settled_spawn_search:
  "settled (s, ps) \<Longrightarrow> settled (spawn (handleSearch s) ps)"
  by (auto simp: settled_def spawn_def handleSearch_def exclusive_def split: if_splits)

lemma settled_spawn_extract:
  "settled (spawn (fetchArticleExtract t s) ps)"
  by (simp add: settled_def spawn_def fetchArticleExtract_def)

lemma exclusive_handleSearch_resume:
  "selectedArticle b = None \<Longrightarrow> exclusive (handleSearch_resume t out b)"
  by (cases "search_try out") (simp_all add: handleSearch_resume_def exclusive_def Let_def)

lemma settled_step:
  assumes "settled m" and "length (snd m) \<le> 1"
  shows "settled (step m e)"
proof (cases m)
  case (Pair s ps)
  with assms have s: "settled (s, ps)" and l: "length ps \<le> 1" by simp_all
  show ?thesis
  proof (cases e)
    case (Input t)
    with Pair s show ?thesis by (auto simp: settled_def exclusive_def split: if_splits)
  next
    case Submit
    with Pair s show ?thesis by (simp add: settled_spawn_search)
  next
    case (Click i)
    with Pair s show ?thesis by (simp add: settled_spawn_extract)
  next
    case Close
    with Pair s show ?thesis
      by (auto simp: settled_def exclusive_def clearArticle_def split: if_splits)
  next
    case (Settle k out)
    show ?thesis
    proof (cases "k < length ps")
      case True
      with l obtain p where ps: "ps = [p]" and k: "k = 0"
        by (cases ps) auto
      from s ps have c: "error s = None" "selectedArticle s = None"
        by (simp_all add: settled_def)
      from c have "exclusive (resume p out s)"
        by (cases p) (simp_all add: exclusive_handleSearch_resume exclusive_resume)
      with Pair Settle ps k show ?thesis by (simp add: settled_def)
    next
      case False
      with Pair Settle s show ?thesis by simp
    qed
  qed
qed

lemma settled_foldl:
  "settled m \<Longrightarrow> serial_from m evs \<Longrightarrow> settled (foldl step m evs)"
  by (induction evs arbitrary: m) (simp_all add: settled_step)

lemma serial_from_take: "serial_from m evs \<Longrightarrow> serial_from m (take n evs)"
proof (induction evs arbitrary: m n)
  case Nil
  then show ?case by simp
next
  case (Cons e es)
  then show ?case by (cases n) simp_all
qed

text \<open>
  C10 (as amended). Along every run of the event loop in which at most one fetch is in
  flight at any moment (so that each \<^verbatim>\<open>handleSearch\<close> and \<^verbatim>\<open>fetchArticleExtract\<close> has
  run to its end before the next handler is called), an error message and a selected
  article are never both set, at any point of the run and so after each operation
  completes: the handler clears both before it fetches and sets at most one of them
  when it resumes, and \<^verbatim>\<open>clearArticle\<close> leaves no article.
\<close>

theorem C10_serial_runs_exclusive:
  assumes "serial_from (initial, []) evs"
  shows "exclusive (fst (run (take n evs)))"
proof -
  have "settled (initial, [])"
    by (simp add: settled_def exclusive_def initial_def)
  moreover from assms have "serial_from (initial, []) (take n evs)"
    by (rule serial_from_take)
  ultimately have "settled (run (take n evs))"
    unfolding run_def by (rule settled_foldl)
  then show ?thesis by (rule settled_exclusive)
qed

lemmas run_eval =
  run_def initial_def spawn_def handleSearch_def handleSearch_resume_def
  search_try_def search_reply_def matches_def quantum_def fetchArticleExtract_def
  fetchArticleExtract_resume_def extract_try_def extract_reply_def first_page_def
  trim_def is_ws_def

theorem C10_serial_runs_exclusive_witness:
  "serial_from (initial, []) serial_picks \<and>
   error (fst (run (take 5 serial_picks))) \<noteq> None \<and>
   exclusive (fst (run (take 5 serial_picks))) \<and>
   selectedArticle (fst (run (take 7 serial_picks))) \<noteq> None \<and>
   exclusive (fst (run (take 7 serial_picks)))"
proof -
  have h: "serial_from (initial, []) serial_picks"
    by (simp add: serial_picks_def run_eval encode_eval)
  have e: "error (fst (run (take 5 serial_picks))) \<noteq> None"
    by (simp add: serial_picks_def run_eval encode_eval)
  have a: "selectedArticle (fst (run (take 7 serial_picks))) \<noteq> None"
    by (simp add: serial_picks_def run_eval encode_eval)
  from h e a C10_serial_runs_exclusive [OF h, of 5] C10_serial_runs_exclusive [OF h, of 7]
  show ?thesis by blast
qed

text \<open>
  The result buttons stay enabled while a fetch is in flight. Two picks made one after
  the other before either settles both complete: the first with an article, the second
  with a missing extract, whose branch sets the error and leaves the article of the
  first in place. No fetch is left in flight, the loading flag is down, and both the
  error and the article are set.
\<close>

theorem C10_overlapping_picks_counterexample:
  "snd (run overlapping_picks) = [] \<and>
   \<not> loading (fst (run overlapping_picks)) \<and>
   error (fst (run overlapping_picks)) \<noteq> None \<and>
   selectedArticle (fst (run overlapping_picks)) \<noteq> None \<and>
   \<not> exclusive (fst (run overlapping_picks)) \<and>
   \<not> serial_from (initial, []) overlapping_picks"
  by (simp add: overlapping_picks_def run_eval exclusive_def encode_eval)

subsection \<open>Titles of the requests\<close>

lemma titled_initial: "titled initial"
  by (simp add: titled_def initial_def)

lemma titled_handleSearch: "titled s \<Longrightarrow> titled (fst (handleSearch s))"
  by (auto simp: titled_def handleSearch_def search_request_def)

lemma to_usv_empty_iff: "to_usv t = [] \<longleftrightarrow> t = []"
  by (cases t) (auto split: list.splits)

lemma titled_fetchArticleExtract:
  "titled s \<Longrightarrow> t \<noteq> [] \<Longrightarrow> titled (fst (fetchArticleExtract t s))"
  by (auto simp: titled_def fetchArticleExtract_def extract_request_def to_usv_empty_iff)

lemma search_try_delivered:
  "search_try out = Inr l \<Longrightarrow> l = delivered (Settle k out)"
  by (auto simp: search_try_def split: fetch_outcome.splits body.splits option.splits if_splits)

lemma titled_handleSearch_resume:
  assumes "titled s" and "\<forall>r \<in> set (delivered (Settle k out)). title r \<noteq> []"
  shows "titled (handleSearch_resume t out s)"
proof (cases "search_try out")
  case (Inl e)
  with assms(1) show ?thesis by (simp add: handleSearch_resume_def titled_def)
next
  case (Inr l)
  with assms search_try_delivered [OF Inr, of k] show ?thesis
    by (simp add: handleSearch_resume_def titled_def Let_def)
qed

lemma titled_fetchArticleExtract_resume:
  assumes "titled s"
  shows "titled (fetchArticleExtract_resume t out s)"
proof (cases "extract_try t out s")
  case (Inl e)
  with assms show ?thesis by (simp add: fetchArticleExtract_resume_def titled_def)
next
  case (Inr s1)
  with assms extract_try_shape [OF Inr] show ?thesis
    by (auto simp: fetchArticleExtract_resume_def titled_def)
qed

lemma titled_step:
  assumes "titled (fst m)" and "\<forall>r \<in> set (delivered e). title r \<noteq> []"
  shows "titled (fst (step m e))"
proof (cases m)
  case (Pair s ps)
  with assms(1) have s: "titled s" by simp
  show ?thesis
  proof (cases e)
    case (Input t)
    with Pair s show ?thesis by (simp add: titled_def)
  next
    case Submit
    with Pair s show ?thesis by (simp add: spawn_def titled_handleSearch)
  next
    case (Click i)
    show ?thesis
    proof (cases "selectedArticle s = None \<and> i < length (results s)")
      case True
      with s have "title (results s ! i) \<noteq> []" by (simp add: titled_def)
      with True Pair Click s show ?thesis
        by (simp add: spawn_def titled_fetchArticleExtract)
    next
      case False
      with Pair Click s show ?thesis by auto
    qed
  next
    case Close
    with Pair s show ?thesis by (simp add: clearArticle_def titled_def)
  next
    case (Settle k out)
    show ?thesis
    proof (cases "k < length ps")
      case True
      with Pair Settle s assms(2) show ?thesis
        by (cases "ps ! k")
           (simp_all add: titled_handleSearch_resume [of s k out]
              titled_fetchArticleExtract_resume)
    next
      case False
      with Pair Settle s show ?thesis by simp
    qed
  qed
qed

lemma titled_foldl:
  "titled (fst m) \<Longrightarrow> \<forall>e \<in> set evs. \<forall>r \<in> set (delivered e). title r \<noteq> [] \<Longrightarrow>
   titled (fst (foldl step m evs))"
  by (induction evs arbitrary: m) (simp_all add: titled_step)

text \<open>
  C9 (as amended). \<^verbatim>\<open>fetchArticleExtract\<close> tests no title before it fetches, and its one
  call site gives it the title of an entry of the current result list. So along every
  run of the event loop in which the remote service delivered search results with
  non-empty titles only, no content-extraction request carries an empty title.
\<close>

theorem C9_request_titles_from_results:
  assumes "\<forall>e \<in> set evs. \<forall>r \<in> set (delivered e). title r \<noteq> []"
  shows "\<forall>q \<in> set (fetched (fst (run evs))). param ''titles'' q \<noteq> Some []"
proof -
  have "titled (fst (run evs))"
    unfolding run_def using assms by (intro titled_foldl) (simp_all add: titled_initial)
  then show ?thesis by (simp add: titled_def)
qed

lemma run_scenario:
  "fst (run scenario) =
     populated\<lparr>fetched := [search_request (lit ''Quantum computing''),
                           extract_request (lit ''Quantum computing'')]\<rparr>"
  by (simp add: scenario_def populated_eq run_def initial_def spawn_def handleSearch_def
      handleSearch_resume_def search_try_def search_reply_def matches_def quantum_def
      fetchArticleExtract_def fetchArticleExtract_resume_def extract_try_def extract_reply_def
      first_page_def clearArticle_def trim_def is_ws_def encode_eval)

theorem C9_request_titles_from_results_witness:
  "list_all (\<lambda>e. list_all (\<lambda>r. title r \<noteq> []) (delivered e)) scenario \<and>
   fetched (fst (run scenario))
     = [search_request (lit ''Quantum computing''), extract_request (lit ''Quantum computing'')] \<and>
   list_all (\<lambda>q. param ''titles'' q \<noteq> Some []) (fetched (fst (run scenario)))"
proof -
  have h: "\<forall>e \<in> set scenario. \<forall>r \<in> set (delivered e). title r \<noteq> []"
    by (simp add: scenario_def search_reply_def extract_reply_def matches_def quantum_def lit_def)
  have f: "fetched (fst (run scenario))
     = [search_request (lit ''Quantum computing''), extract_request (lit ''Quantum computing'')]"
    by (simp add: run_scenario)
  from h f C9_request_titles_from_results [OF h] show ?thesis
    by (simp add: list_all_iff)
qed

text \<open>A search result with an empty title is listed like any other, and its button sends
  the request with the empty title.\<close>

theorem C9_empty_title_counterexample:
  "fetched (fst (run untitled)) = [search_request (lit ''a''), extract_request []] \<and>
   param ''titles'' (last (fetched (fst (run untitled)))) = Some []"
  by (simp add: untitled_def run_def initial_def spawn_def handleSearch_def
      handleSearch_resume_def search_try_def search_reply_def matches_def
      fetchArticleExtract_def extract_request_def trim_def is_ws_def lit_def)

end
